theory Spec2Isabelle
  imports Main "HOL-Library.Word"
begin

section \<open>Data model\<close>

text \<open>
  The structs of packages \<^verbatim>\<open>ag\<close> and \<^verbatim>\<open>models\<close> are declared outside the files
  at hand; their fields are taken from the uses in the handlers and from the
  data model of the specification.  Records are kept extensible, so that every
  statement below also covers the fields that are not listed.
\<close>

text \<open>Modelled from the spec: RemoteIdentity is (provider name, remote user id,
  access token); the declaration of the struct is not among the source files.\<close>

record RemoteIdentity =
  Provider :: string
  RemoteID :: "64 word"
  AccessToken :: string

text \<open>Modelled from the spec: a User is a local identity that owns zero or
  more RemoteIdentity records; the declaration of the struct is not among the
  source files.\<close>

record User =
  ID :: "64 word"
  RemoteIdentities :: "RemoteIdentity list"

section \<open>ag/util.go: removing remote identities\<close>

text \<open>
  The methods of \<^verbatim>\<open>util.go\<close> work on pointers: \<^verbatim>\<open>*User\<close>, and slices
  \<^verbatim>\<open>[]*User\<close> and \<^verbatim>\<open>[]*Group\<close>.  User objects live in a store indexed by
  address, so that two pointers to one user share its fields; a pointer is an
  address or nil (\<open>None\<close>).  A Go pointer never dangles, hence the store is
  total.  Groups are only read, and are kept as values.
\<close>

type_synonym addr = nat

type_synonym 'a heap = "addr \<Rightarrow> 'a User_scheme"

record Users =
  Users :: "addr option list"

record Group =
  Users :: "addr option list"

record Groups =
  Groups :: "Group option list"

text \<open>
  Writing through a nil pointer is a run-time panic.  The outcome of a method
  is the store it leaves behind, tagged by whether the method returned or
  panicked on the way.
\<close>

datatype 'h outcome = Return 'h | Panic 'h

fun heap_of :: "'h outcome \<Rightarrow> 'h" where
  "heap_of (Return h) = h"
| "heap_of (Panic h) = h"

fun returned :: "'h outcome \<Rightarrow> bool" where
  "returned (Return h) = True"
| "returned (Panic h) = False"

text \<open>Modelled from the spec: the generated accessors \<^verbatim>\<open>GetUsers\<close> and
  \<^verbatim>\<open>GetGroups\<close> of package \<^verbatim>\<open>ag\<close> are not among the source files; they
  return the field, and the empty slice on a nil receiver.\<close>

definition Users_GetUsers :: "Users option \<Rightarrow> addr option list" where
  "Users_GetUsers u = (case u of None \<Rightarrow> [] | Some m \<Rightarrow> Users.Users m)"

definition Group_GetUsers :: "Group option \<Rightarrow> addr option list" where
  "Group_GetUsers g = (case g of None \<Rightarrow> [] | Some m \<Rightarrow> Group.Users m)"

definition Groups_GetGroups :: "Groups option \<Rightarrow> Group option list" where
  "Groups_GetGroups g = (case g of None \<Rightarrow> [] | Some m \<Rightarrow> Groups m)"

text \<open>\<^verbatim>\<open>func (u *User) RemoveRemoteID()\<close>\<close>

definition User_RemoveRemoteID :: "addr option \<Rightarrow> 'a heap \<Rightarrow> 'a heap outcome" where
  "User_RemoveRemoteID u h =
     (let voidIDs = [] in
      case u of
        None \<Rightarrow> Panic h
      | Some a \<Rightarrow> Return (h(a := (h a)\<lparr>RemoteIdentities := voidIDs\<rparr>)))"

text \<open>\<^verbatim>\<open>func (u *Users) RemoveRemoteIDs()\<close>: the loop over \<^verbatim>\<open>u.GetUsers()\<close>.\<close>

fun Users_range :: "addr option list \<Rightarrow> 'a heap \<Rightarrow> 'a heap outcome" where
  "Users_range [] h = Return h"
| "Users_range (user # rest) h =
     (case User_RemoveRemoteID user h of
        Panic h' \<Rightarrow> Panic h'
      | Return h' \<Rightarrow> Users_range rest h')"

definition Users_RemoveRemoteIDs :: "Users option \<Rightarrow> 'a heap \<Rightarrow> 'a heap outcome" where
  "Users_RemoveRemoteIDs u h = Users_range (Users_GetUsers u) h"

text \<open>\<^verbatim>\<open>func (g *Group) RemoveRemoteIDs()\<close>: the loop over \<^verbatim>\<open>g.GetUsers()\<close>.\<close>

fun Group_range :: "addr option list \<Rightarrow> 'a heap \<Rightarrow> 'a heap outcome" where
  "Group_range [] h = Return h"
| "Group_range (user # rest) h =
     (case User_RemoveRemoteID user h of
        Panic h' \<Rightarrow> Panic h'
      | Return h' \<Rightarrow> Group_range rest h')"

definition Group_RemoveRemoteIDs :: "Group option \<Rightarrow> 'a heap \<Rightarrow> 'a heap outcome" where
  "Group_RemoveRemoteIDs g h = Group_range (Group_GetUsers g) h"

text \<open>\<^verbatim>\<open>func (g *Groups) RemoveRemoteIDs()\<close>: the loop over \<^verbatim>\<open>g.GetGroups()\<close>.\<close>

fun Groups_range :: "Group option list \<Rightarrow> 'a heap \<Rightarrow> 'a heap outcome" where
  "Groups_range [] h = Return h"
| "Groups_range (grp # rest) h =
     (case Group_RemoveRemoteIDs grp h of
        Panic h' \<Rightarrow> Panic h'
      | Return h' \<Rightarrow> Groups_range rest h')"

definition Groups_RemoveRemoteIDs :: "Groups option \<Rightarrow> 'a heap \<Rightarrow> 'a heap outcome" where
  "Groups_RemoveRemoteIDs g h = Groups_range (Groups_GetGroups g) h"

text \<open>The user pointers that a \<^verbatim>\<open>Groups\<close> value contains: those of its groups, in
  order; a nil group contributes none.\<close>

definition Groups_users :: "Groups option \<Rightarrow> addr option list" where
  "Groups_users g = concat (map Group_GetUsers (Groups_GetGroups g))"

section \<open>Errors, responses and the request context\<close>

text \<open>
  A Go \<^verbatim>\<open>error\<close> value.  \<open>HTTPError\<close> is \<^verbatim>\<open>echo.NewHTTPError(code, message)\<close>,
  \<open>ErrRecordNotFound\<close> is \<^verbatim>\<open>gorm.ErrRecordNotFound\<close>, \<open>ErrSyntax\<close> and \<open>ErrRange\<close>
  are the two errors of \<^verbatim>\<open>strconv\<close>, \<open>ErrorString\<close> is \<^verbatim>\<open>errors.New(text)\<close>, and
  \<open>ErrOther\<close> stands for any further error of a collaborator (a failed bind, a
  time-out, a directory that is not found).
\<close>

datatype error =
    HTTPError nat string
  | ErrRecordNotFound
  | ErrSyntax
  | ErrRange
  | ErrorString string
  | ErrOther string

abbreviation StatusOK :: nat where "StatusOK \<equiv> 200"
abbreviation StatusCreated :: nat where "StatusCreated \<equiv> 201"
abbreviation StatusFound :: nat where "StatusFound \<equiv> 302"
abbreviation StatusBadRequest :: nat where "StatusBadRequest \<equiv> 400"
abbreviation StatusNotFound :: nat where "StatusNotFound \<equiv> 404"

section \<open>scm/scm.go\<close>

record Directory =
  ID :: "64 word"
  Name :: string
  Avatar :: string

text \<open>
  The interface \<^verbatim>\<open>SCM\<close> as a record of its methods.  Of the three methods the
  handlers at hand call \<^verbatim>\<open>GetDirectory\<close> only; its context argument carries the
  deadline, and a deadline that passes is one of the errors returned.
\<close>

record SCM =
  GetDirectory :: "64 word \<Rightarrow> error + Directory"

text \<open>
  \<^verbatim>\<open>func NewSCMClient(provider, token string) (SCM, error)\<close>.  The constructors of
  the two adapters are declared outside the files at hand and are parameters.
  The result is the pair the Go function returns: client or nil, error or nil.
\<close>

definition NewSCMClient ::
  "(string \<Rightarrow> 'scm) \<Rightarrow> (string \<Rightarrow> 'scm) \<Rightarrow> string \<Rightarrow> string \<Rightarrow> 'scm option \<times> error option" where
  "NewSCMClient NewGithubSCMClient NewGitlabSCMClient provider token =
     (if provider = ''github'' then (Some (NewGithubSCMClient token), None)
      else if provider = ''gitlab'' then (Some (NewGitlabSCMClient token), None)
      else (None, Some (ErrorString (''invalid provider: '' @ provider))))"

section \<open>The collaborators of the handlers\<close>

text \<open>Modelled from the spec: a Course references a provider name and a
  Directory id; the declaration of \<^verbatim>\<open>models.Course\<close> is not among the source
  files, its fields are those of the literal in \<^verbatim>\<open>NewCourse\<close> and the id of
  the response.\<close>

record Course =
  ID :: "64 word"
  Name :: string
  Code :: string
  Year :: "64 word"
  Tag :: string
  Provider :: string
  DirectoryID :: "64 word"

text \<open>\<^verbatim>\<open>type NewCourseRequest struct\<close> (Go's \<^verbatim>\<open>uint\<close> is taken at 64 bits).\<close>

record NewCourseRequest =
  Name :: string
  Code :: string
  Year :: "64 word"
  Tag :: string
  Provider :: string
  DirectoryID :: "64 word"

text \<open>
  The interface \<^verbatim>\<open>database.Database\<close> as a record of the methods the handlers
  call, over a state \<open>'db\<close> of the store.  Reads return a result; \<^verbatim>\<open>CreateCourse\<close>
  returns the id it wrote into the course, or an error, and the new state.
\<close>

record 'db Database =
  db_GetUser :: "64 word \<Rightarrow> 'db \<Rightarrow> error + User"
  db_GetUsers :: "'db \<Rightarrow> error + User list"
  db_GetCourses :: "'db \<Rightarrow> error + Course list"
  db_GetCoursesForUser :: "64 word \<Rightarrow> 'db \<Rightarrow> error + Course list"
  db_CreateCourse :: "Course \<Rightarrow> 'db \<Rightarrow> (error + 64 word) \<times> 'db"

text \<open>
  What a handler reads from \<^verbatim>\<open>echo.Context\<close>: path parameters, query
  parameters, the outcome of binding the body, and the values that the
  middleware has put on the context.
\<close>

record Context =
  params :: "string \<rightharpoonup> string"
  query :: "string \<rightharpoonup> string"
  body :: "error + NewCourseRequest"
  store :: "string \<rightharpoonup> SCM"

definition Param :: "Context \<Rightarrow> string \<Rightarrow> string" where
  "Param c name = (case params c name of None \<Rightarrow> [] | Some v \<Rightarrow> v)"

definition QueryParam :: "Context \<Rightarrow> string \<Rightarrow> string" where
  "QueryParam c name = (case query c name of None \<Rightarrow> [] | Some v \<Rightarrow> v)"

definition Bind :: "Context \<Rightarrow> error + NewCourseRequest" where
  "Bind c = body c"

definition Get :: "Context \<Rightarrow> string \<Rightarrow> SCM option" where
  "Get c key = store c key"

text \<open>What a handler writes: the value handed to \<^verbatim>\<open>c.JSONPretty\<close> with its
  status, or a status alone (\<^verbatim>\<open>c.NoContent\<close>).\<close>

datatype payload =
    JUser User
  | JUsers "User list"
  | JCourse Course
  | JCourses "Course list"

datatype response = JSONPretty nat payload | NoContent nat

text \<open>
  \<^verbatim>\<open>strconv.ParseUint(s, 10, 64)\<close>: the empty string and any byte that is not a
  decimal digit are a syntax error; a value beyond 64 bits is a range error.
  The accumulator is the \<^verbatim>\<open>uint64\<close> of the library's loop, with its cutoff test.
\<close>

fun ParseUint_loop :: "string \<Rightarrow> 64 word \<Rightarrow> error + 64 word" where
  "ParseUint_loop [] n = Inr n"
| "ParseUint_loop (c # cs) n =
     (let k = (of_char c :: nat) in
      if \<not> (48 \<le> k \<and> k \<le> 57) then Inl ErrSyntax
      else if n \<ge> 1844674407370955162 then Inl ErrRange
      else
        let n' = n * 10; n1 = n' + of_nat (k - 48) in
        if n1 < n' then Inl ErrRange else ParseUint_loop cs n1)"

definition ParseUint :: "string \<Rightarrow> error + 64 word" where
  "ParseUint s = (if s = [] then Inl ErrSyntax else ParseUint_loop s 0)"

section \<open>The user handlers\<close>

text \<open>\<^verbatim>\<open>func GetUser(db database.Database) echo.HandlerFunc\<close>\<close>

definition GetUser :: "'db Database \<Rightarrow> 'db \<Rightarrow> Context \<Rightarrow> error + response" where
  "GetUser db s c =
     (case ParseUint (Param c ''id'') of
        Inl err \<Rightarrow> Inl (HTTPError StatusBadRequest ''invalid user id'')
      | Inr id' \<Rightarrow>
          if id' = 0 then Inl (HTTPError StatusBadRequest ''invalid user id'')
          else
            (case db_GetUser db id' s of
               Inl err \<Rightarrow>
                 if err = ErrRecordNotFound then Inr (NoContent StatusNotFound)
                 else Inl err
             | Inr user \<Rightarrow> Inr (JSONPretty StatusFound (JUser user))))"


section \<open>web/courses.go\<close>

text \<open>\<^verbatim>\<open>func (cr *NewCourseRequest) valid() bool\<close>; the receiver is a pointer,
  \<open>None\<close> is nil.\<close>

definition valid :: "NewCourseRequest option \<Rightarrow> bool" where
  "valid cr =
     (case cr of
        None \<Rightarrow> False
      | Some r \<Rightarrow>
          NewCourseRequest.Name r \<noteq> [] \<and>
          NewCourseRequest.Code r \<noteq> [] \<and>
          (NewCourseRequest.Provider r = ''github'' \<or> NewCourseRequest.Provider r = ''gitlab'') \<and>
          NewCourseRequest.DirectoryID r \<noteq> 0 \<and>
          NewCourseRequest.Year r \<noteq> 0 \<and>
          NewCourseRequest.Tag r \<noteq> [])"

text \<open>\<^verbatim>\<open>func ListCourses(db database.Database) echo.HandlerFunc\<close>\<close>

definition ListCourses :: "'db Database \<Rightarrow> 'db \<Rightarrow> Context \<Rightarrow> error + response" where
  "ListCourses db s c =
     (case ParseUint (QueryParam c ''user'') of
        Inl err \<Rightarrow> Inl err
      | Inr id' \<Rightarrow>
          (case (if id' > 0 then db_GetCoursesForUser db id' s else db_GetCourses db s) of
             Inl err \<Rightarrow> Inl err
           | Inr courses \<Rightarrow> Inr (JSONPretty StatusOK (JCourses courses))))"

text \<open>
  \<^verbatim>\<open>func NewCourse(db database.Database) echo.HandlerFunc\<close>.  Besides its result
  and the state of the store, the handler returns the calls it has made on its
  two collaborators, in the order it made them.
\<close>

datatype event =
    GetDirectoryCall "64 word" "error + Directory"
  | CreateCourseCall Course

text \<open>The literal \<^verbatim>\<open>models.Course{...}\<close> of the handler; its id is left at zero.\<close>

definition course_literal :: "NewCourseRequest \<Rightarrow> Directory \<Rightarrow> Course" where
  "course_literal cr directory =
     \<lparr> Course.ID = 0,
       Course.Name = NewCourseRequest.Name cr,
       Course.Code = NewCourseRequest.Code cr,
       Course.Year = NewCourseRequest.Year cr,
       Course.Tag = NewCourseRequest.Tag cr,
       Course.Provider = NewCourseRequest.Provider cr,
       Course.DirectoryID = Directory.ID directory \<rparr>"

definition NewCourse ::
  "'db Database \<Rightarrow> 'db \<Rightarrow> Context \<Rightarrow> (error + response) \<times> 'db \<times> event list" where
  "NewCourse db s c =
     (case Bind c of
        Inl err \<Rightarrow> (Inl err, s, [])
      | Inr cr \<Rightarrow>
          if \<not> valid (Some cr) then
            (Inl (HTTPError StatusBadRequest ''invalid payload''), s, [])
          else
            (case Get c (NewCourseRequest.Provider cr) of
               None \<Rightarrow>
                 (Inl (HTTPError StatusBadRequest
                        (''provider '' @ NewCourseRequest.Provider cr @ '' not registered'')),
                  s, [])
             | Some scm \<Rightarrow>
                 (case GetDirectory scm (NewCourseRequest.DirectoryID cr) of
                    Inl err \<Rightarrow>
                      (Inl err, s,
                       [GetDirectoryCall (NewCourseRequest.DirectoryID cr) (Inl err)])
                  | Inr directory \<Rightarrow>
                      (let course = course_literal cr directory;
                           calls = [GetDirectoryCall (NewCourseRequest.DirectoryID cr) (Inr directory),
                                    CreateCourseCall course]
                       in case db_CreateCourse db course s of
                            (Inl err, s') \<Rightarrow> (Inl err, s', calls)
                          | (Inr key, s') \<Rightarrow>
                              (Inr (JSONPretty StatusCreated
                                     (JCourse (course\<lparr>Course.ID := key\<rparr>))),
                               s', calls)))))"

section \<open>Stand-ins for the collaborators\<close>

text \<open>Modelled from the spec: package \<^verbatim>\<open>database\<close> is not among the source
  files.  The stand-in keeps user rows, course rows and the pairs (user id,
  course id) of the users' courses; a lookup of an id without a row fails with
  \<^verbatim>\<open>gorm.ErrRecordNotFound\<close>, and an insert appends the row under a fresh
  positive id.  It serves the concrete runs below; the theorems on the
  handlers hold for every implementation of the interface.\<close>

record MemDB =
  users :: "User list"
  courses :: "Course list"
  enrollments :: "(64 word \<times> 64 word) list"

definition memDB :: "MemDB Database" where
  "memDB =
     \<lparr> db_GetUser = (\<lambda>k s.
         case find (\<lambda>u. User.ID u = k) (users s) of
           None \<Rightarrow> Inl ErrRecordNotFound
         | Some u \<Rightarrow> Inr u),
       db_GetUsers = (\<lambda>s. Inr (users s)),
       db_GetCourses = (\<lambda>s. Inr (courses s)),
       db_GetCoursesForUser = (\<lambda>k s.
         Inr (filter (\<lambda>c. (k, Course.ID c) \<in> set (enrollments s)) (courses s))),
       db_CreateCourse = (\<lambda>course s.
         let key = of_nat (length (courses s)) + 1
         in (Inr key, s\<lparr>courses := courses s @ [course\<lparr>Course.ID := key\<rparr>]\<rparr>)) \<rparr>"

text \<open>Modelled from the spec: the adapters of the providers are not among the
  source files.  The stand-in serves a fixed list of directories:
  \<^verbatim>\<open>GetDirectory\<close> fetches by id and fails when no directory has the id.\<close>

definition stubSCM :: "Directory list \<Rightarrow> SCM" where
  "stubSCM ds =
     \<lparr> GetDirectory = (\<lambda>k.
         case find (\<lambda>d. Directory.ID d = k) ds of
           None \<Rightarrow> Inl (ErrOther ''not found'')
         | Some d \<Rightarrow> Inr d) \<rparr>"

text \<open>Modelled from the spec: one adapter per provider, built from the access
  token; the constructors \<^verbatim>\<open>NewGithubSCMClient\<close> and \<^verbatim>\<open>NewGitlabSCMClient\<close> are
  not among the source files.  For the concrete runs a client is the name of
  its adapter and its token.\<close>

datatype adapter = Github string | Gitlab string

text \<open>Concrete data for the runs: three users holding none, one and three
  remote identities (no two identities share provider and remote id, and no
  user holds two of one provider), the directory and the request of the
  specification's example, and contexts of requests.\<close>

definition identity1 :: RemoteIdentity where
  "identity1 = \<lparr> RemoteIdentity.Provider = ''github'', RemoteID = 11, AccessToken = ''token-a'' \<rparr>"

definition identity2 :: RemoteIdentity where
  "identity2 = \<lparr> RemoteIdentity.Provider = ''github'', RemoteID = 21, AccessToken = ''token-b'' \<rparr>"

definition identity3 :: RemoteIdentity where
  "identity3 = \<lparr> RemoteIdentity.Provider = ''gitlab'', RemoteID = 22, AccessToken = ''token-c'' \<rparr>"

definition identity4 :: RemoteIdentity where
  "identity4 = \<lparr> RemoteIdentity.Provider = ''fake'', RemoteID = 23, AccessToken = ''token-d'' \<rparr>"

definition user1 :: User where
  "user1 = \<lparr> User.ID = 1, RemoteIdentities = [] \<rparr>"

definition user2 :: User where
  "user2 = \<lparr> User.ID = 2, RemoteIdentities = [identity1] \<rparr>"

definition user3 :: User where
  "user3 = \<lparr> User.ID = 3, RemoteIdentities = [identity2, identity3, identity4] \<rparr>"

definition heap0 :: "unit heap" where
  "heap0 = (\<lambda>a. user1)(1 := user2, 2 := user3)"

definition users0 :: "Users option" where
  "users0 = Some \<lparr> Users.Users = [Some 0, Some 1, Some 2] \<rparr>"

definition users_nil :: "Users option" where
  "users_nil = Some \<lparr> Users.Users = [Some 1, None, Some 2] \<rparr>"

definition group0 :: "Group option" where
  "group0 = Some \<lparr> Group.Users = [Some 2, Some 1] \<rparr>"

definition groups0 :: "Groups option" where
  "groups0 = Some \<lparr> Groups = [Some \<lparr> Group.Users = [Some 0] \<rparr>, None, group0] \<rparr>"

definition db0 :: MemDB where
  "db0 = \<lparr> users = [user1, user2, user3], courses = [], enrollments = [] \<rparr>"

definition dir42 :: Directory where
  "dir42 = \<lparr> Directory.ID = 42, Directory.Name = ''uis-dat320'', Avatar = [] \<rparr>"

definition dir0 :: Directory where
  "dir0 = \<lparr> Directory.ID = 0, Directory.Name = ''zero'', Avatar = [] \<rparr>"

definition request42 :: NewCourseRequest where
  "request42 =
     \<lparr> NewCourseRequest.Name = ''DAT320'', NewCourseRequest.Code = ''DAT320'',
       NewCourseRequest.Year = 2024, NewCourseRequest.Tag = ''Fall'',
       NewCourseRequest.Provider = ''github'', NewCourseRequest.DirectoryID = 42 \<rparr>"

definition context0 :: Context where
  "context0 =
     \<lparr> params = Map.empty, query = Map.empty, body = Inl (ErrOther ''no body''),
       store = [''github'' \<mapsto> stubSCM [dir0, dir42]] \<rparr>"

definition request0 :: NewCourseRequest where
  "request0 = request42\<lparr>NewCourseRequest.DirectoryID := 0\<rparr>"

definition request5 :: NewCourseRequest where
  "request5 = request42\<lparr>NewCourseRequest.DirectoryID := 5\<rparr>"

definition request_unnamed :: NewCourseRequest where
  "request_unnamed = request42\<lparr>NewCourseRequest.Name := []\<rparr>"

text \<open>A \<^verbatim>\<open>POST /courses\<close> whose body binds to \<open>r\<close>, and a \<^verbatim>\<open>GET /users/:id\<close>.\<close>

definition post :: "NewCourseRequest \<Rightarrow> Context" where
  "post r = context0\<lparr>body := Inr r\<rparr>"

definition get_user :: "string \<Rightarrow> Context" where
  "get_user k = context0\<lparr>params := [''id'' \<mapsto> k]\<rparr>"

section \<open>Notions used in the statements\<close>



text \<open>
  The steps of \<^verbatim>\<open>NewCourse\<close> up to and including the directory lookup: binding
  the body, validating it, finding the client of the provider on the context,
  and \<^verbatim>\<open>GetDirectory\<close>.  \<open>directory_step_fails\<close> holds when one of them fails.
\<close>

definition directory_step_fails :: "Context \<Rightarrow> bool" where
  "directory_step_fails c =
     (case Bind c of
        Inl err \<Rightarrow> True
      | Inr cr \<Rightarrow>
          \<not> valid (Some cr) \<or>
          (case Get c (NewCourseRequest.Provider cr) of
             None \<Rightarrow> True
           | Some scm \<Rightarrow> isl (GetDirectory scm (NewCourseRequest.DirectoryID cr))))"

section \<open>Properties of the identity-stripping transform\<close>

lemma User_RemoveRemoteID_Some:
  "User_RemoveRemoteID (Some a) h = Return (h(a := (h a)\<lparr>RemoteIdentities := []\<rparr>))"
  by (simp add: User_RemoveRemoteID_def)

lemma User_RemoveRemoteID_None: "User_RemoveRemoteID None h = Panic h"
  by (simp add: User_RemoveRemoteID_def)

lemmas RemoveRemoteID_simps = User_RemoveRemoteID_Some User_RemoveRemoteID_None

lemma Users_range_returned_iff:
  "returned (Users_range us h) \<longleftrightarrow> None \<notin> set us"
proof (induction us arbitrary: h)
  case Nil
  show ?case by simp
next
  case (Cons u us)
  show ?case
  proof (cases u)
    case None
    then show ?thesis by (simp add: RemoveRemoteID_simps)
  next
    case (Some a)
    then show ?thesis using Cons.IH by (simp add: RemoveRemoteID_simps)
  qed
qed

lemma Users_range_heap:
  "None \<notin> set us \<Longrightarrow>
   heap_of (Users_range us h) b =
     (if Some b \<in> set us then (h b)\<lparr>RemoteIdentities := []\<rparr> else h b)"
proof (induction us arbitrary: h)
  case Nil
  show ?case by simp
next
  case (Cons u us)
  then obtain a where u: "u = Some a" by (cases u) auto
  from Cons.prems have "None \<notin> set us" by simp
  from Cons.IH[OF this] u show ?case
    by (simp add: RemoveRemoteID_simps)
qed

lemma Users_range_frame:
  "\<exists>ris. heap_of (Users_range us h) b = (h b)\<lparr>RemoteIdentities := ris\<rparr>"
proof (induction us arbitrary: h)
  case Nil
  have "h b = (h b)\<lparr>RemoteIdentities := RemoteIdentities (h b)\<rparr>" by simp
  then show ?case by (metis Users_range.simps(1) heap_of.simps(1))
next
  case (Cons u us)
  show ?case
  proof (cases u)
    case None
    have "h b = (h b)\<lparr>RemoteIdentities := RemoteIdentities (h b)\<rparr>" by simp
    then have "\<exists>ris. h b = (h b)\<lparr>RemoteIdentities := ris\<rparr>" by (rule exI)
    then show ?thesis by (simp add: None RemoveRemoteID_simps)
  next
    case (Some a)
    let ?h = "h(a := (h a)\<lparr>RemoteIdentities := []\<rparr>)"
    from Cons.IH[of ?h] obtain ris where
      r: "heap_of (Users_range us ?h) b = (?h b)\<lparr>RemoteIdentities := ris\<rparr>" by blast
    have "(?h b)\<lparr>RemoteIdentities := ris\<rparr> = (h b)\<lparr>RemoteIdentities := ris\<rparr>" by simp
    with r have "heap_of (Users_range us ?h) b = (h b)\<lparr>RemoteIdentities := ris\<rparr>" by simp
    then show ?thesis by (auto simp add: Some RemoveRemoteID_simps)
  qed
qed

lemma Users_range_fields:
  "User.ID (heap_of (Users_range us h) b) = User.ID (h b) \<and>
   User.more (heap_of (Users_range us h) b) = User.more (h b)"
proof -
  obtain ris where "heap_of (Users_range us h) b = (h b)\<lparr>RemoteIdentities := ris\<rparr>"
    using Users_range_frame by blast
  then show ?thesis by simp
qed

lemma Group_range_eq: "Group_range us h = Users_range us h"
  by (induction us arbitrary: h) (auto split: outcome.splits)

lemma Users_range_append:
  "Users_range (xs @ ys) h =
     (case Users_range xs h of Panic h' \<Rightarrow> Panic h' | Return h' \<Rightarrow> Users_range ys h')"
  by (induction xs arbitrary: h) (auto split: outcome.splits)

lemma Groups_range_eq:
  "Groups_range gs h = Users_range (concat (map Group_GetUsers gs)) h"
  by (induction gs arbitrary: h)
     (auto simp: Group_RemoveRemoteIDs_def Group_range_eq Users_range_append split: outcome.splits)

lemma Groups_RemoveRemoteIDs_eq:
  "Groups_RemoveRemoteIDs g h = Users_range (Groups_users g) h"
  by (simp add: Groups_RemoveRemoteIDs_def Groups_users_def Groups_range_eq)

lemma Group_RemoveRemoteIDs_eq:
  "Group_RemoveRemoteIDs g h = Users_range (Group_GetUsers g) h"
  by (simp add: Group_RemoveRemoteIDs_def Group_range_eq)

text \<open>The transform stops with a panic at the first nil entry of a user slice.\<close>

lemma Users_RemoveRemoteIDs_panics_iff:
  "returned (Users_RemoveRemoteIDs us h) \<longleftrightarrow> None \<notin> set (Users_GetUsers us)"
  by (simp add: Users_RemoveRemoteIDs_def Users_range_returned_iff)

lemma stripping_inputs:
  "Users_GetUsers users0 = [Some 0, Some 1, Some 2]"
  "Group_GetUsers group0 = [Some 2, Some 1]"
  "Groups_users groups0 = [Some 0, Some 2, Some 1]"
  "Users_GetUsers users_nil = [Some 1, None, Some 2]"
  by (simp_all add: users0_def group0_def groups0_def users_nil_def Users_GetUsers_def
        Group_GetUsers_def Groups_users_def Groups_GetGroups_def)

lemma heap0_identities:
  "length (RemoteIdentities (heap0 0)) = 0"
  "length (RemoteIdentities (heap0 (Suc 0))) = 1"
  "length (RemoteIdentities (heap0 2)) = 3"
  by (simp_all add: heap0_def user1_def user2_def user3_def)

text \<open>
  Claim C8, as stated, fails for a \<^verbatim>\<open>Users\<close> value with a nil entry: on the
  slice of the pointers 1, nil and 2, \<^verbatim>\<open>RemoveRemoteIDs\<close> strips the user at
  address 1 and panics at the nil entry; the user at address 2, which the
  value contains, keeps its three remote identities.
\<close>

theorem RemoveRemoteIDs_nil_entry_counterexample:
  "Users_GetUsers users_nil = [Some 1, None, Some 2] \<and>
   \<not> returned (Users_RemoveRemoteIDs users_nil heap0) \<and>
   RemoteIdentities (heap_of (Users_RemoveRemoteIDs users_nil heap0) (Suc 0)) = [] \<and>
   length (RemoteIdentities (heap_of (Users_RemoveRemoteIDs users_nil heap0) 2)) = 3"
  by (simp add: Users_RemoveRemoteIDs_def stripping_inputs RemoveRemoteID_simps heap0_identities)

text \<open>
  Claim C8, amended.  For a single user, \<^verbatim>\<open>RemoveRemoteID\<close> returns and leaves
  the user without remote identities.  For a \<^verbatim>\<open>Users\<close>, \<^verbatim>\<open>Group\<close> or
  \<^verbatim>\<open>Groups\<close> value in which no entry of a user slice is nil (the receiver and
  the groups of a \<^verbatim>\<open>Groups\<close> may be nil), \<^verbatim>\<open>RemoveRemoteIDs\<close> returns, and
  every user the value contains is left with an empty collection of remote
  identities.  The store \<open>h\<close> is arbitrary, so the users hold any number of
  identities before.
\<close>

theorem RemoveRemoteIDs_strip_every_user:
  "(returned (User_RemoveRemoteID (Some a) h) \<and>
      RemoteIdentities (heap_of (User_RemoveRemoteID (Some a) h) a) = []) \<and>
   (None \<notin> set (Users_GetUsers us) \<longrightarrow>
      returned (Users_RemoveRemoteIDs us h) \<and>
      (\<forall>b. Some b \<in> set (Users_GetUsers us) \<longrightarrow>
         RemoteIdentities (heap_of (Users_RemoveRemoteIDs us h) b) = [])) \<and>
   (None \<notin> set (Group_GetUsers g) \<longrightarrow>
      returned (Group_RemoveRemoteIDs g h) \<and>
      (\<forall>b. Some b \<in> set (Group_GetUsers g) \<longrightarrow>
         RemoteIdentities (heap_of (Group_RemoveRemoteIDs g h) b) = [])) \<and>
   (None \<notin> set (Groups_users gs) \<longrightarrow>
      returned (Groups_RemoveRemoteIDs gs h) \<and>
      (\<forall>b. Some b \<in> set (Groups_users gs) \<longrightarrow>
         RemoteIdentities (heap_of (Groups_RemoveRemoteIDs gs h) b) = []))"
proof -
  have one: "returned (User_RemoveRemoteID (Some a) h) \<and>
      RemoteIdentities (heap_of (User_RemoveRemoteID (Some a) h) a) = []"
    by (simp add: User_RemoveRemoteID_Some)
  have many: "returned (Users_range ps h) \<and>
      (\<forall>b. Some b \<in> set ps \<longrightarrow> RemoteIdentities (heap_of (Users_range ps h) b) = [])"
    if "None \<notin> set ps" for ps
    using that by (simp add: Users_range_returned_iff Users_range_heap)
  show ?thesis
    unfolding Users_RemoveRemoteIDs_def Group_RemoveRemoteIDs_eq Groups_RemoveRemoteIDs_eq
    using one many by blast
qed

theorem RemoveRemoteIDs_strip_every_user_witness:
  "map (\<lambda>a. length (RemoteIdentities (heap0 a))) [0, 1, 2] = [0, 1, 3] \<and>
   None \<notin> set (Users_GetUsers users0) \<and>
   None \<notin> set (Group_GetUsers group0) \<and>
   None \<notin> set (Groups_users groups0) \<and>
   returned (User_RemoveRemoteID (Some 2) heap0) \<and>
   RemoteIdentities (heap_of (User_RemoveRemoteID (Some 2) heap0) 2) = [] \<and>
   returned (Users_RemoveRemoteIDs users0 heap0) \<and>
   map (\<lambda>a. RemoteIdentities (heap_of (Users_RemoveRemoteIDs users0 heap0) a)) [0, 1, 2] = [[], [], []] \<and>
   returned (Group_RemoveRemoteIDs group0 heap0) \<and>
   map (\<lambda>a. RemoteIdentities (heap_of (Group_RemoveRemoteIDs group0 heap0) a)) [1, 2] = [[], []] \<and>
   returned (Groups_RemoveRemoteIDs groups0 heap0) \<and>
   map (\<lambda>a. RemoteIdentities (heap_of (Groups_RemoveRemoteIDs groups0 heap0) a)) [0, 1, 2] = [[], [], []]"
  using RemoveRemoteIDs_strip_every_user [of 2 heap0 users0 group0 groups0]
  by (simp add: stripping_inputs heap0_identities)

text \<open>
  Claim C10.  \<^verbatim>\<open>RemoveRemoteID\<close> writes the field \<^verbatim>\<open>RemoteIdentities\<close> of its
  user, which becomes the empty slice, and nothing else; the three
  \<^verbatim>\<open>RemoveRemoteIDs\<close> leave the id and every further field of every user of
  the store as they were, whether they return or panic.
\<close>

theorem RemoveRemoteIDs_change_only_RemoteIdentities:
  "User_RemoveRemoteID (Some a) h = Return (h(a := (h a)\<lparr>RemoteIdentities := []\<rparr>)) \<and>
   User.ID (heap_of (Users_RemoveRemoteIDs us h) b) = User.ID (h b) \<and>
   User.more (heap_of (Users_RemoveRemoteIDs us h) b) = User.more (h b) \<and>
   User.ID (heap_of (Group_RemoveRemoteIDs g h) b) = User.ID (h b) \<and>
   User.more (heap_of (Group_RemoveRemoteIDs g h) b) = User.more (h b) \<and>
   User.ID (heap_of (Groups_RemoveRemoteIDs gs h) b) = User.ID (h b) \<and>
   User.more (heap_of (Groups_RemoveRemoteIDs gs h) b) = User.more (h b)"
  unfolding Users_RemoveRemoteIDs_def Group_RemoveRemoteIDs_eq Groups_RemoveRemoteIDs_eq
  by (simp add: User_RemoveRemoteID_Some Users_range_fields)

section \<open>Properties of the client factory\<close>

text \<open>
  Claim C5, as stated, fails at the provider name \<^verbatim>\<open>fake\<close>: the factory has no
  case for it, and returns no client and the error \<^verbatim>\<open>invalid provider: fake\<close>.
\<close>

theorem NewSCMClient_fake_counterexample:
  "NewSCMClient Github Gitlab ''fake'' ''token-c'' =
     (None, Some (ErrorString ''invalid provider: fake''))"
  by (simp add: NewSCMClient_def)

text \<open>
  Claim C5, amended.  The factory is keyed by provider name: for \<^verbatim>\<open>github\<close> and
  \<^verbatim>\<open>gitlab\<close> it returns the client of the adapter, built from the token, and
  no error; for every other provider name it returns no client and the error
  \<^verbatim>\<open>invalid provider: \<close> followed by the name.
\<close>

theorem NewSCMClient_by_provider:
  "(provider = ''github'' \<longrightarrow>
      NewSCMClient NewGithubSCMClient NewGitlabSCMClient provider token =
        (Some (NewGithubSCMClient token), None)) \<and>
   (provider = ''gitlab'' \<longrightarrow>
      NewSCMClient NewGithubSCMClient NewGitlabSCMClient provider token =
        (Some (NewGitlabSCMClient token), None)) \<and>
   (provider \<noteq> ''github'' \<and> provider \<noteq> ''gitlab'' \<longrightarrow>
      NewSCMClient NewGithubSCMClient NewGitlabSCMClient provider token =
        (None, Some (ErrorString (''invalid provider: '' @ provider))))"
  by (simp add: NewSCMClient_def)

theorem NewSCMClient_by_provider_witness:
  "NewSCMClient Github Gitlab ''github'' ''token-a'' = (Some (Github ''token-a''), None) \<and>
   NewSCMClient Github Gitlab ''gitlab'' ''token-b'' = (Some (Gitlab ''token-b''), None) \<and>
   ''fake'' \<noteq> ''github'' \<and> ''fake'' \<noteq> ''gitlab'' \<and>
   NewSCMClient Github Gitlab ''fake'' ''token-c'' =
     (None, Some (ErrorString ''invalid provider: fake''))"
  using NewSCMClient_by_provider [of "''github''" Github Gitlab "''token-a''"]
        NewSCMClient_by_provider [of "''gitlab''" Github Gitlab "''token-b''"]
        NewSCMClient_by_provider [of "''fake''" Github Gitlab "''token-c''"]
  by simp

section \<open>Facts about the stand-ins\<close>

lemma GetDirectory_stubSCM:
  "GetDirectory (stubSCM ds) k =
     (case find (\<lambda>d. Directory.ID d = k) ds of
        None \<Rightarrow> Inl (ErrOther ''not found'') | Some d \<Rightarrow> Inr d)"
  by (simp add: stubSCM_def)

lemma post_simps:
  "Bind (post r) = Inr r"
  "Get (post r) ''github'' = Some (stubSCM [dir0, dir42])"
  "Get (post r) ''gitlab'' = None"
  by (simp_all add: post_def Bind_def Get_def context0_def)

lemma request_fields:
  "NewCourseRequest.Name request42 = ''DAT320''"
  "NewCourseRequest.Code request42 = ''DAT320''"
  "NewCourseRequest.Year request42 = 2024"
  "NewCourseRequest.Tag request42 = ''Fall''"
  "NewCourseRequest.Provider request42 = ''github''"
  "NewCourseRequest.DirectoryID request42 = 42"
  by (simp_all add: request42_def)

lemma memDB_CreateCourse_db0:
  "db_CreateCourse memDB course db0 =
     (Inr 1, db0\<lparr>courses := [course\<lparr>Course.ID := 1\<rparr>]\<rparr>)"
  by (simp add: memDB_def db0_def)

section \<open>Properties of the user handlers\<close>

lemma ParseUint_7: "ParseUint ''7'' = Inr 7"
  by (simp add: ParseUint_def)


lemma ParseUint_0: "ParseUint ''0'' = Inr 0"
  by (simp add: ParseUint_def)

lemma ParseUint_empty: "ParseUint [] = Inl ErrSyntax"
  by (simp add: ParseUint_def)

lemma Param_get_user: "Param (get_user k) ''id'' = k"
  by (simp add: Param_def get_user_def)

lemma memDB_GetUser_db0:
  "db_GetUser memDB 7 db0 = Inl ErrRecordNotFound"
  "db_GetUser memDB 2 db0 = Inr user2"
  "db_GetUsers memDB db0 = Inr [user1, user2, user3]"
  by (simp_all add: memDB_def db0_def user1_def user2_def user3_def)



text \<open>
  Claim C7.  When the path parameter \<^verbatim>\<open>id\<close> is a positive user id and the
  database has no such user (\<^verbatim>\<open>db.GetUser\<close> fails with
  \<^verbatim>\<open>gorm.ErrRecordNotFound\<close>), \<^verbatim>\<open>GetUser\<close> answers with status 404 and no
  content.
\<close>

theorem GetUser_unknown_id_not_found:
  assumes "ParseUint (Param c ''id'') = Inr k" and "k \<noteq> 0"
    and "db_GetUser db k s = Inl ErrRecordNotFound"
  shows "GetUser db s c = Inr (NoContent StatusNotFound)"
  using assms by (simp add: GetUser_def)

theorem GetUser_unknown_id_not_found_witness:
  "ParseUint (Param (get_user ''7'') ''id'') = Inr 7 \<and> (7 :: 64 word) \<noteq> 0 \<and>
   db_GetUser memDB 7 db0 = Inl ErrRecordNotFound \<and>
   GetUser memDB db0 (get_user ''7'') = Inr (NoContent StatusNotFound)"
proof -
  have p: "ParseUint (Param (get_user ''7'') ''id'') = Inr 7"
    by (simp add: Param_get_user ParseUint_7)
  have z: "(7 :: 64 word) \<noteq> 0" by simp
  have d: "db_GetUser memDB 7 db0 = Inl ErrRecordNotFound" by (rule memDB_GetUser_db0)
  from GetUser_unknown_id_not_found [OF p z d] p z d show ?thesis by simp
qed








section \<open>Properties of the course handlers\<close>

text \<open>With \<^verbatim>\<open>user=0\<close> the handler lists all courses, with a positive user id
  the courses of that user; without the parameter it returns the syntax error
  of \<^verbatim>\<open>strconv.ParseUint\<close> on the empty string.\<close>

lemma ListCourses_absent:
  "query c ''user'' = None \<Longrightarrow> ListCourses db s c = Inl ErrSyntax"
  by (simp add: ListCourses_def QueryParam_def ParseUint_empty)

lemma ListCourses_zero:
  "ParseUint (QueryParam c ''user'') = Inr 0 \<Longrightarrow>
   ListCourses db s c =
     (case db_GetCourses db s of Inl err \<Rightarrow> Inl err
      | Inr cs \<Rightarrow> Inr (JSONPretty StatusOK (JCourses cs)))"
  by (simp add: ListCourses_def)

lemma ListCourses_positive:
  "ParseUint (QueryParam c ''user'') = Inr k \<Longrightarrow> k \<noteq> 0 \<Longrightarrow>
   ListCourses db s c =
     (case db_GetCoursesForUser db k s of Inl err \<Rightarrow> Inl err
      | Inr cs \<Rightarrow> Inr (JSONPretty StatusOK (JCourses cs)))"
  by (simp add: ListCourses_def word_greater_zero_iff)

text \<open>
  Claim C6 does not hold of the handler where the parameter is absent: on
  \<^verbatim>\<open>GET /courses\<close> without \<^verbatim>\<open>user\<close>, against a database that can list its
  courses, \<^verbatim>\<open>ListCourses\<close> returns the syntax error and no courses.
\<close>

theorem ListCourses_without_user_fails:
  "query context0 ''user'' = None \<and>
   db_GetCourses memDB db0 = Inr [] \<and>
   ListCourses memDB db0 context0 = Inl ErrSyntax"
proof -
  have q: "query context0 ''user'' = None" by (simp add: context0_def)
  have g: "db_GetCourses memDB db0 = Inr []" by (simp add: memDB_def db0_def)
  from q g ListCourses_absent [OF q] show ?thesis by simp
qed

text \<open>The five paths through \<^verbatim>\<open>NewCourse\<close>, one lemma each, and the case
  analysis they give.\<close>

lemma NewCourse_bind_fails:
  "Bind c = Inl err \<Longrightarrow> NewCourse db s c = (Inl err, s, [])"
  by (simp add: NewCourse_def)

lemma NewCourse_invalid:
  "Bind c = Inr cr \<Longrightarrow> \<not> valid (Some cr) \<Longrightarrow>
   NewCourse db s c = (Inl (HTTPError StatusBadRequest ''invalid payload''), s, [])"
  by (simp add: NewCourse_def)

lemma NewCourse_not_registered:
  "Bind c = Inr cr \<Longrightarrow> valid (Some cr) \<Longrightarrow> Get c (NewCourseRequest.Provider cr) = None \<Longrightarrow>
   NewCourse db s c =
     (Inl (HTTPError StatusBadRequest
            (''provider '' @ NewCourseRequest.Provider cr @ '' not registered'')), s, [])"
  by (simp add: NewCourse_def)

lemma NewCourse_directory_fails:
  "Bind c = Inr cr \<Longrightarrow> valid (Some cr) \<Longrightarrow> Get c (NewCourseRequest.Provider cr) = Some scm \<Longrightarrow>
   GetDirectory scm (NewCourseRequest.DirectoryID cr) = Inl err \<Longrightarrow>
   NewCourse db s c =
     (Inl err, s, [GetDirectoryCall (NewCourseRequest.DirectoryID cr) (Inl err)])"
  by (simp add: NewCourse_def)

lemma NewCourse_insert_fails:
  "Bind c = Inr cr \<Longrightarrow> valid (Some cr) \<Longrightarrow> Get c (NewCourseRequest.Provider cr) = Some scm \<Longrightarrow>
   GetDirectory scm (NewCourseRequest.DirectoryID cr) = Inr directory \<Longrightarrow>
   db_CreateCourse db (course_literal cr directory) s = (Inl err, s') \<Longrightarrow>
   NewCourse db s c =
     (Inl err, s',
      [GetDirectoryCall (NewCourseRequest.DirectoryID cr) (Inr directory),
       CreateCourseCall (course_literal cr directory)])"
  by (simp add: NewCourse_def Let_def)

lemma NewCourse_inserted:
  "Bind c = Inr cr \<Longrightarrow> valid (Some cr) \<Longrightarrow> Get c (NewCourseRequest.Provider cr) = Some scm \<Longrightarrow>
   GetDirectory scm (NewCourseRequest.DirectoryID cr) = Inr directory \<Longrightarrow>
   db_CreateCourse db (course_literal cr directory) s = (Inr key, s') \<Longrightarrow>
   NewCourse db s c =
     (Inr (JSONPretty StatusCreated (JCourse ((course_literal cr directory)\<lparr>Course.ID := key\<rparr>))), s',
      [GetDirectoryCall (NewCourseRequest.DirectoryID cr) (Inr directory),
       CreateCourseCall (course_literal cr directory)])"
  by (simp add: NewCourse_def Let_def)

lemma NewCourse_cases:
  obtains (bind) err where "Bind c = Inl err" "NewCourse db s c = (Inl err, s, [])"
  | (invalid) cr where "Bind c = Inr cr" "\<not> valid (Some cr)"
      "NewCourse db s c = (Inl (HTTPError StatusBadRequest ''invalid payload''), s, [])"
  | (unregistered) cr where "Bind c = Inr cr" "valid (Some cr)"
      "Get c (NewCourseRequest.Provider cr) = None"
      "NewCourse db s c =
         (Inl (HTTPError StatusBadRequest
            (''provider '' @ NewCourseRequest.Provider cr @ '' not registered'')), s, [])"
  | (nodir) cr scm err where "Bind c = Inr cr" "valid (Some cr)"
      "Get c (NewCourseRequest.Provider cr) = Some scm"
      "GetDirectory scm (NewCourseRequest.DirectoryID cr) = Inl err"
      "NewCourse db s c =
         (Inl err, s, [GetDirectoryCall (NewCourseRequest.DirectoryID cr) (Inl err)])"
  | (create) cr scm directory where "Bind c = Inr cr" "valid (Some cr)"
      "Get c (NewCourseRequest.Provider cr) = Some scm"
      "GetDirectory scm (NewCourseRequest.DirectoryID cr) = Inr directory"
      "snd (snd (NewCourse db s c)) =
         [GetDirectoryCall (NewCourseRequest.DirectoryID cr) (Inr directory),
          CreateCourseCall (course_literal cr directory)]"
proof (cases "Bind c")
  case (Inl err)
  show ?thesis by (rule bind [OF Inl NewCourse_bind_fails [OF Inl]])
next
  case (Inr cr)
  note b = this
  show ?thesis
  proof (cases "valid (Some cr)")
    case False
    show ?thesis by (rule invalid [OF b False NewCourse_invalid [OF b False]])
  next
    case True
    note v = this
    show ?thesis
    proof (cases "Get c (NewCourseRequest.Provider cr)")
      case None
      show ?thesis by (rule unregistered [OF b v None NewCourse_not_registered [OF b v None]])
    next
      case (Some scm)
      note g = this
      show ?thesis
      proof (cases "GetDirectory scm (NewCourseRequest.DirectoryID cr)")
        case (Inl err)
        show ?thesis by (rule nodir [OF b v g Inl NewCourse_directory_fails [OF b v g Inl]])
      next
        case (Inr directory)
        note d = this
        obtain r s' where cc: "db_CreateCourse db (course_literal cr directory) s = (r, s')"
          by (cases "db_CreateCourse db (course_literal cr directory) s")
        have "snd (snd (NewCourse db s c)) =
            [GetDirectoryCall (NewCourseRequest.DirectoryID cr) (Inr directory),
             CreateCourseCall (course_literal cr directory)]"
        proof (cases r)
          case (Inl err)
          with cc have "db_CreateCourse db (course_literal cr directory) s = (Inl err, s')" by simp
          from NewCourse_insert_fails [OF b v g d this] show ?thesis by simp
        next
          case (Inr key)
          with cc have "db_CreateCourse db (course_literal cr directory) s = (Inr key, s')" by simp
          from NewCourse_inserted [OF b v g d this] show ?thesis by simp
        qed
        then show ?thesis by (rule create [OF b v g d])
      qed
    qed
  qed
qed

lemma valid_iff:
  "valid (Some cr) \<longleftrightarrow>
     \<not> (NewCourseRequest.Name cr = [] \<or> NewCourseRequest.Code cr = [] \<or>
        NewCourseRequest.Tag cr = [] \<or> NewCourseRequest.Year cr = 0 \<or>
        NewCourseRequest.DirectoryID cr = 0 \<or>
        (NewCourseRequest.Provider cr \<noteq> ''github'' \<and> NewCourseRequest.Provider cr \<noteq> ''gitlab''))"
  by (auto simp: valid_def)

lemma valid_request42: "valid (Some request42)"
  by (simp add: valid_def request_fields)

lemma GetDirectory_stub_42: "GetDirectory (stubSCM [dir0, dir42]) 42 = Inr dir42"
  by (simp add: GetDirectory_stubSCM dir0_def dir42_def)

lemma GetDirectory_stub_0: "GetDirectory (stubSCM [dir0, dir42]) 0 = Inr dir0"
  by (simp add: GetDirectory_stubSCM dir0_def dir42_def)

lemma GetDirectory_stub_5: "GetDirectory (stubSCM [dir0, dir42]) 5 = Inl (ErrOther ''not found'')"
  by (simp add: GetDirectory_stubSCM dir0_def dir42_def)

lemma request0_fields:
  "NewCourseRequest.Name request0 = ''DAT320''"
  "NewCourseRequest.Code request0 = ''DAT320''"
  "NewCourseRequest.Year request0 = 2024"
  "NewCourseRequest.Tag request0 = ''Fall''"
  "NewCourseRequest.Provider request0 = ''github''"
  "NewCourseRequest.DirectoryID request0 = 0"
  by (simp_all add: request0_def request42_def)

lemma request5_fields:
  "NewCourseRequest.Provider request5 = ''github''"
  "NewCourseRequest.DirectoryID request5 = 5"
  "valid (Some request5)"
  by (simp_all add: request5_def request42_def valid_def)

lemma request_unnamed_fields:
  "NewCourseRequest.Name request_unnamed = []"
  by (simp add: request_unnamed_def)

lemma NewCourse_request42:
  "NewCourse memDB db0 (post request42) =
     (Inr (JSONPretty StatusCreated
            (JCourse ((course_literal request42 dir42)\<lparr>Course.ID := 1\<rparr>))),
      db0\<lparr>courses := [(course_literal request42 dir42)\<lparr>Course.ID := 1\<rparr>]\<rparr>,
      [GetDirectoryCall 42 (Inr dir42), CreateCourseCall (course_literal request42 dir42)])"
proof -
  have b: "Bind (post request42) = Inr request42" by (rule post_simps)
  have g: "Get (post request42) (NewCourseRequest.Provider request42) = Some (stubSCM [dir0, dir42])"
    by (simp add: request_fields post_simps)
  have d: "GetDirectory (stubSCM [dir0, dir42]) (NewCourseRequest.DirectoryID request42) = Inr dir42"
    by (simp add: request_fields GetDirectory_stub_42)
  from NewCourse_inserted [OF b valid_request42 g d memDB_CreateCourse_db0]
  show ?thesis by (simp add: request_fields)
qed

text \<open>
  Claim C2.  \<^verbatim>\<open>db.CreateCourse\<close> is called only after \<^verbatim>\<open>GetDirectory\<close>, on the
  client that the context holds for the provider of the request, has returned
  a directory for the requested id: whenever the calls of the handler contain
  a \<^verbatim>\<open>CreateCourse\<close>, they are that successful \<^verbatim>\<open>GetDirectory\<close> followed by
  the \<^verbatim>\<open>CreateCourse\<close>.  When \<^verbatim>\<open>GetDirectory\<close> or an earlier step fails, the
  state of the database is the one before the request and \<^verbatim>\<open>CreateCourse\<close>
  has not been called.
\<close>

theorem NewCourse_creates_only_after_GetDirectory:
  "(CreateCourseCall course \<in> set (snd (snd (NewCourse db s c))) \<longrightarrow>
      (\<exists>cr scm directory.
         Bind c = Inr cr \<and> Get c (NewCourseRequest.Provider cr) = Some scm \<and>
         GetDirectory scm (NewCourseRequest.DirectoryID cr) = Inr directory \<and>
         snd (snd (NewCourse db s c)) =
           [GetDirectoryCall (NewCourseRequest.DirectoryID cr) (Inr directory),
            CreateCourseCall course])) \<and>
   (directory_step_fails c \<longrightarrow>
      fst (snd (NewCourse db s c)) = s \<and>
      (\<forall>course'. CreateCourseCall course' \<notin> set (snd (snd (NewCourse db s c)))))"
proof (cases rule: NewCourse_cases [where c = c and db = db and s = s])
  case (bind err)
  then show ?thesis by simp
next
  case (invalid cr)
  then show ?thesis by simp
next
  case (unregistered cr)
  then show ?thesis by simp
next
  case (nodir cr scm err)
  then show ?thesis by simp
next
  case (create cr scm directory)
  then have "\<not> directory_step_fails c"
    by (simp add: directory_step_fails_def)
  moreover have "CreateCourseCall course \<in> set (snd (snd (NewCourse db s c))) \<longrightarrow>
      (\<exists>cr scm directory.
         Bind c = Inr cr \<and> Get c (NewCourseRequest.Provider cr) = Some scm \<and>
         GetDirectory scm (NewCourseRequest.DirectoryID cr) = Inr directory \<and>
         snd (snd (NewCourse db s c)) =
           [GetDirectoryCall (NewCourseRequest.DirectoryID cr) (Inr directory),
            CreateCourseCall course])"
  proof
    assume "CreateCourseCall course \<in> set (snd (snd (NewCourse db s c)))"
    with create(5) have "course = course_literal cr directory" by simp
    with create show "\<exists>cr scm directory.
         Bind c = Inr cr \<and> Get c (NewCourseRequest.Provider cr) = Some scm \<and>
         GetDirectory scm (NewCourseRequest.DirectoryID cr) = Inr directory \<and>
         snd (snd (NewCourse db s c)) =
           [GetDirectoryCall (NewCourseRequest.DirectoryID cr) (Inr directory),
            CreateCourseCall course]"
      by (intro exI [of _ cr] exI [of _ scm] exI [of _ directory]) simp
  qed
  ultimately show ?thesis by simp
qed

theorem NewCourse_creates_only_after_GetDirectory_witness:
  "CreateCourseCall (course_literal request42 dir42)
     \<in> set (snd (snd (NewCourse memDB db0 (post request42)))) \<and>
   (\<exists>cr scm directory.
      Bind (post request42) = Inr cr \<and>
      Get (post request42) (NewCourseRequest.Provider cr) = Some scm \<and>
      GetDirectory scm (NewCourseRequest.DirectoryID cr) = Inr directory \<and>
      snd (snd (NewCourse memDB db0 (post request42))) =
        [GetDirectoryCall (NewCourseRequest.DirectoryID cr) (Inr directory),
         CreateCourseCall (course_literal request42 dir42)]) \<and>
   directory_step_fails (post request5) \<and>
   fst (snd (NewCourse memDB db0 (post request5))) = db0 \<and>
   CreateCourseCall (course_literal request5 dir42)
     \<notin> set (snd (snd (NewCourse memDB db0 (post request5))))"
proof -
  have m: "CreateCourseCall (course_literal request42 dir42)
     \<in> set (snd (snd (NewCourse memDB db0 (post request42))))"
    by (simp add: NewCourse_request42)
  have f: "directory_step_fails (post request5)"
    by (simp add: directory_step_fails_def post_simps request5_fields GetDirectory_stub_5)
  from m f
    NewCourse_creates_only_after_GetDirectory
      [of "course_literal request42 dir42" memDB db0 "post request42"]
    NewCourse_creates_only_after_GetDirectory
      [of "course_literal request5 dir42" memDB db0 "post request5"]
  show ?thesis by blast
qed

text \<open>
  Claim C3, as stated, fails at the directory id 0: the request below has a
  name, a code, a tag, the year 2024 and the provider \<^verbatim>\<open>github\<close>, the client of
  the caller resolves its directory id, and the insert would succeed; the
  handler rejects it with status 400, because \<^verbatim>\<open>valid\<close> requires a directory
  id other than zero.
\<close>

theorem NewCourse_directory_zero_counterexample:
  "Bind (post request0) = Inr request0 \<and>
   NewCourseRequest.Name request0 \<noteq> [] \<and>
   NewCourseRequest.Code request0 \<noteq> [] \<and>
   NewCourseRequest.Tag request0 \<noteq> [] \<and>
   (2024 :: 64 word) \<le> NewCourseRequest.Year request0 \<and>
   NewCourseRequest.Provider request0 = ''github'' \<and>
   Get (post request0) (NewCourseRequest.Provider request0) = Some (stubSCM [dir0, dir42]) \<and>
   GetDirectory (stubSCM [dir0, dir42]) (NewCourseRequest.DirectoryID request0) = Inr dir0 \<and>
   Directory.ID dir0 = NewCourseRequest.DirectoryID request0 \<and>
   fst (db_CreateCourse memDB (course_literal request0 dir0) db0) = Inr 1 \<and>
   fst (NewCourse memDB db0 (post request0)) =
     Inl (HTTPError StatusBadRequest ''invalid payload'')"
proof -
  have b: "Bind (post request0) = Inr request0" by (rule post_simps)
  have v: "\<not> valid (Some request0)" by (simp add: valid_def request0_fields)
  have "fst (NewCourse memDB db0 (post request0)) =
     Inl (HTTPError StatusBadRequest ''invalid payload'')"
    by (simp add: NewCourse_invalid [OF b v])
  moreover have "Directory.ID dir0 = NewCourseRequest.DirectoryID request0"
    by (simp add: request0_fields dir0_def)
  ultimately show ?thesis
    by (simp add: request0_fields post_simps GetDirectory_stub_0 memDB_CreateCourse_db0)
qed

text \<open>
  Claim C3, amended.  For a request with non-empty name, code and tag, a year
  not before the current year \<open>now\<close> (a positive number), a provider among
  \<^verbatim>\<open>github\<close> and \<^verbatim>\<open>gitlab\<close>, and a directory id other than zero that the
  caller's client resolves (the context holds the client, \<^verbatim>\<open>GetDirectory\<close>
  returns the directory of that id, and the insert succeeds), \<^verbatim>\<open>NewCourse\<close>
  answers 201 with the course, whose directory id is the requested one.
\<close>

theorem NewCourse_created_for_resolvable_directory:
  assumes "Bind c = Inr cr"
    and "NewCourseRequest.Name cr \<noteq> []"
    and "NewCourseRequest.Code cr \<noteq> []"
    and "NewCourseRequest.Tag cr \<noteq> []"
    and "0 < now" and "now \<le> NewCourseRequest.Year cr"
    and "NewCourseRequest.Provider cr = ''github'' \<or> NewCourseRequest.Provider cr = ''gitlab''"
    and "NewCourseRequest.DirectoryID cr \<noteq> 0"
    and "Get c (NewCourseRequest.Provider cr) = Some scm"
    and "GetDirectory scm (NewCourseRequest.DirectoryID cr) = Inr directory"
    and "Directory.ID directory = NewCourseRequest.DirectoryID cr"
    and "db_CreateCourse db (course_literal cr directory) s = (Inr key, s')"
  shows "fst (NewCourse db s c) =
           Inr (JSONPretty StatusCreated
                 (JCourse ((course_literal cr directory)\<lparr>Course.ID := key\<rparr>))) \<and>
         Course.DirectoryID ((course_literal cr directory)\<lparr>Course.ID := key\<rparr>) =
           NewCourseRequest.DirectoryID cr"
proof -
  from assms(5,6) have "NewCourseRequest.Year cr \<noteq> 0" by auto
  with assms(2,3,4,7,8) have v: "valid (Some cr)" by (simp add: valid_def)
  from NewCourse_inserted [OF assms(1) v assms(9,10,12)] assms(11)
  show ?thesis by (simp add: course_literal_def)
qed

theorem NewCourse_created_for_resolvable_directory_witness:
  "Bind (post request42) = Inr request42 \<and>
   NewCourseRequest.Name request42 \<noteq> [] \<and>
   NewCourseRequest.Code request42 \<noteq> [] \<and>
   NewCourseRequest.Tag request42 \<noteq> [] \<and>
   (0 :: 64 word) < 2024 \<and> 2024 \<le> NewCourseRequest.Year request42 \<and>
   NewCourseRequest.Provider request42 = ''github'' \<and>
   NewCourseRequest.DirectoryID request42 \<noteq> 0 \<and>
   Get (post request42) (NewCourseRequest.Provider request42) = Some (stubSCM [dir0, dir42]) \<and>
   GetDirectory (stubSCM [dir0, dir42]) (NewCourseRequest.DirectoryID request42) = Inr dir42 \<and>
   Directory.ID dir42 = NewCourseRequest.DirectoryID request42 \<and>
   db_CreateCourse memDB (course_literal request42 dir42) db0 =
     (Inr 1, db0\<lparr>courses := [(course_literal request42 dir42)\<lparr>Course.ID := 1\<rparr>]\<rparr>) \<and>
   fst (NewCourse memDB db0 (post request42)) =
     Inr (JSONPretty StatusCreated
           (JCourse ((course_literal request42 dir42)\<lparr>Course.ID := 1\<rparr>))) \<and>
   Course.DirectoryID ((course_literal request42 dir42)\<lparr>Course.ID := 1\<rparr>) = 42"
proof -
  have b: "Bind (post request42) = Inr request42" by (rule post_simps)
  have n: "NewCourseRequest.Name request42 \<noteq> []"
    and co: "NewCourseRequest.Code request42 \<noteq> []"
    and t: "NewCourseRequest.Tag request42 \<noteq> []"
    and y0: "(0 :: 64 word) < 2024"
    and y: "2024 \<le> NewCourseRequest.Year request42"
    and p: "NewCourseRequest.Provider request42 = ''github'' \<or>
            NewCourseRequest.Provider request42 = ''gitlab''"
    and i: "NewCourseRequest.DirectoryID request42 \<noteq> 0"
    by (simp_all add: request_fields)
  have g: "Get (post request42) (NewCourseRequest.Provider request42) = Some (stubSCM [dir0, dir42])"
    by (simp add: request_fields post_simps)
  have d: "GetDirectory (stubSCM [dir0, dir42]) (NewCourseRequest.DirectoryID request42) = Inr dir42"
    by (simp add: request_fields GetDirectory_stub_42)
  have e: "Directory.ID dir42 = NewCourseRequest.DirectoryID request42"
    by (simp add: request_fields dir42_def)
  note r = NewCourse_created_for_resolvable_directory
             [OF b n co t y0 y p i g d e memDB_CreateCourse_db0]
  from r b n co t y0 y i g d e memDB_CreateCourse_db0 show ?thesis
    by (simp add: request_fields)
qed

text \<open>
  Claim C4.  A request that misses a required field (empty name, code or tag,
  zero year, zero directory id, or a provider other than \<^verbatim>\<open>github\<close> and
  \<^verbatim>\<open>gitlab\<close>), or whose directory id the caller's token does not reach (no
  client of the provider on the context, or \<^verbatim>\<open>GetDirectory\<close> fails), is
  rejected: the handler returns an error, which is an HTTP error of status 400
  or the error of \<^verbatim>\<open>GetDirectory\<close>; the state of the database is unchanged
  and \<^verbatim>\<open>CreateCourse\<close> has not been called.
\<close>

theorem NewCourse_rejects_incomplete_or_unreachable:
  assumes "Bind c = Inr cr"
    and "(NewCourseRequest.Name cr = [] \<or> NewCourseRequest.Code cr = [] \<or>
          NewCourseRequest.Tag cr = [] \<or> NewCourseRequest.Year cr = 0 \<or>
          NewCourseRequest.DirectoryID cr = 0 \<or>
          (NewCourseRequest.Provider cr \<noteq> ''github'' \<and> NewCourseRequest.Provider cr \<noteq> ''gitlab'')) \<or>
         Get c (NewCourseRequest.Provider cr) = None \<or>
         (\<exists>scm err. Get c (NewCourseRequest.Provider cr) = Some scm \<and>
                    GetDirectory scm (NewCourseRequest.DirectoryID cr) = Inl err)"
  shows "(\<exists>err. fst (NewCourse db s c) = Inl err \<and>
            ((\<exists>message. err = HTTPError StatusBadRequest message) \<or>
             (\<exists>scm. Get c (NewCourseRequest.Provider cr) = Some scm \<and>
                    GetDirectory scm (NewCourseRequest.DirectoryID cr) = Inl err))) \<and>
         fst (snd (NewCourse db s c)) = s \<and>
         (\<forall>course. CreateCourseCall course \<notin> set (snd (snd (NewCourse db s c))))"
proof (cases "valid (Some cr)")
  case False
  from NewCourse_invalid [OF assms(1) False, of db s] show ?thesis by simp
next
  case True
  note v = this
  with assms(2) have u: "Get c (NewCourseRequest.Provider cr) = None \<or>
         (\<exists>scm err. Get c (NewCourseRequest.Provider cr) = Some scm \<and>
                    GetDirectory scm (NewCourseRequest.DirectoryID cr) = Inl err)"
    unfolding valid_iff by blast
  show ?thesis
  proof (cases "Get c (NewCourseRequest.Provider cr)")
    case None
    from NewCourse_not_registered [OF assms(1) v None, of db s] show ?thesis by simp
  next
    case (Some scm)
    with u obtain err where e: "GetDirectory scm (NewCourseRequest.DirectoryID cr) = Inl err"
      by auto
    from NewCourse_directory_fails [OF assms(1) v Some e, of db s] Some e show ?thesis by simp
  qed
qed

theorem NewCourse_rejects_incomplete_or_unreachable_witness:
  "Bind (post request_unnamed) = Inr request_unnamed \<and>
   NewCourseRequest.Name request_unnamed = [] \<and>
   fst (NewCourse memDB db0 (post request_unnamed)) =
     Inl (HTTPError StatusBadRequest ''invalid payload'') \<and>
   fst (snd (NewCourse memDB db0 (post request_unnamed))) = db0 \<and>
   Bind (post request5) = Inr request5 \<and>
   Get (post request5) (NewCourseRequest.Provider request5) = Some (stubSCM [dir0, dir42]) \<and>
   GetDirectory (stubSCM [dir0, dir42]) (NewCourseRequest.DirectoryID request5) =
     Inl (ErrOther ''not found'') \<and>
   fst (NewCourse memDB db0 (post request5)) = Inl (ErrOther ''not found'') \<and>
   fst (snd (NewCourse memDB db0 (post request5))) = db0 \<and>
   CreateCourseCall (course_literal request5 dir42)
     \<notin> set (snd (snd (NewCourse memDB db0 (post request5))))"
proof -
  have b1: "Bind (post request_unnamed) = Inr request_unnamed" by (rule post_simps)
  have m: "NewCourseRequest.Name request_unnamed = []" by (rule request_unnamed_fields)
  have v1: "\<not> valid (Some request_unnamed)" by (simp add: valid_def m)
  have r1: "fst (NewCourse memDB db0 (post request_unnamed)) =
     Inl (HTTPError StatusBadRequest ''invalid payload'')"
    by (simp add: NewCourse_invalid [OF b1 v1])
  have b2: "Bind (post request5) = Inr request5" by (rule post_simps)
  have g: "Get (post request5) (NewCourseRequest.Provider request5) = Some (stubSCM [dir0, dir42])"
    by (simp add: request5_fields post_simps)
  have d: "GetDirectory (stubSCM [dir0, dir42]) (NewCourseRequest.DirectoryID request5) =
     Inl (ErrOther ''not found'')"
    by (simp add: request5_fields GetDirectory_stub_5)
  have r2: "fst (NewCourse memDB db0 (post request5)) = Inl (ErrOther ''not found'')"
    using NewCourse_directory_fails [OF b2 _ g d, of memDB db0] by (simp add: request5_fields)
  have h1: "(NewCourseRequest.Name request_unnamed = [] \<or> NewCourseRequest.Code request_unnamed = [] \<or>
          NewCourseRequest.Tag request_unnamed = [] \<or> NewCourseRequest.Year request_unnamed = 0 \<or>
          NewCourseRequest.DirectoryID request_unnamed = 0 \<or>
          (NewCourseRequest.Provider request_unnamed \<noteq> ''github'' \<and>
           NewCourseRequest.Provider request_unnamed \<noteq> ''gitlab'')) \<or>
         Get (post request_unnamed) (NewCourseRequest.Provider request_unnamed) = None \<or>
         (\<exists>scm err. Get (post request_unnamed) (NewCourseRequest.Provider request_unnamed) = Some scm \<and>
                    GetDirectory scm (NewCourseRequest.DirectoryID request_unnamed) = Inl err)"
    using m by simp
  have h2: "(NewCourseRequest.Name request5 = [] \<or> NewCourseRequest.Code request5 = [] \<or>
          NewCourseRequest.Tag request5 = [] \<or> NewCourseRequest.Year request5 = 0 \<or>
          NewCourseRequest.DirectoryID request5 = 0 \<or>
          (NewCourseRequest.Provider request5 \<noteq> ''github'' \<and>
           NewCourseRequest.Provider request5 \<noteq> ''gitlab'')) \<or>
         Get (post request5) (NewCourseRequest.Provider request5) = None \<or>
         (\<exists>scm err. Get (post request5) (NewCourseRequest.Provider request5) = Some scm \<and>
                    GetDirectory scm (NewCourseRequest.DirectoryID request5) = Inl err)"
    using g d by blast
  note t1 = NewCourse_rejects_incomplete_or_unreachable [OF b1 h1, of memDB db0]
  note t2 = NewCourse_rejects_incomplete_or_unreachable [OF b2 h2, of memDB db0]
  from t1 t2 b1 m r1 b2 g d r2 show ?thesis by simp
qed

end
